theory Spec2Isabelle
  imports Complex_Main "HOL-Library.Multiset" "HOL-Library.Option_ord"
begin

section \<open>Data model of \<open>model/assignment.py\<close>\<close>

text \<open>
  Instants (\<open>DateTimeField\<close>) and durations (\<open>DurationField\<close>) are integers: a count of
  microseconds on one time line, so that \<open>+\<close>, \<open>-\<close>, \<open>min\<close> and the comparisons of the
  source are those of \<open>int\<close>. A field that can hold Python's \<open>None\<close> is an \<open>option\<close>.
  \<open>start_time\<close> and \<open>end_time\<close> are not nullable columns, but \<open>Assignment.clean\<close> runs on
  instances where they were not filled in, so the instance carries them as options. The
  bounded range of Python's \<open>datetime\<close> (an \<open>OverflowError\<close> past the year 9999) is
  outside the model. A \<open>FloatField\<close> is a real number; the module does no arithmetic on
  it. JSON fields are opaque to this module.
\<close>

datatype json = JNull | JBool bool | JNum int | JStr string
  | JList "json list" | JDict "(string \<times> json) list"

datatype error =
    InvalidWindowError
      \<comment> \<open>\<open>ValidationError('What is this? A assignment that ended before it starts?')\<close>\<close>
  | ConfigError string
      \<comment> \<open>whatever \<open>format_class.validate\<close> raises\<close>
  | LabelScriptError string
      \<comment> \<open>\<open>ValidationError('Assignment problem label script: %s' % e)\<close>\<close>
  | LabelNotStringError
      \<comment> \<open>\<open>ValidationError('... script should return a string.')\<close>\<close>
  | KeyError
      \<comment> \<open>\<open>assignment_format.formats[self.format_name]\<close> on an unknown name\<close>
  | TypeError
      \<comment> \<open>arithmetic or comparison on \<open>None\<close>\<close>
  | DatabaseError
      \<comment> \<open>\<open>save(update_fields=...)\<close> that affects no row\<close>
  | IntegrityError
      \<comment> \<open>\<open>save()\<close> with \<open>None\<close> in a column that is not nullable\<close>
  | EngineError string
      \<comment> \<open>whatever \<open>judge.ratings.rate_assignment\<close> raises\<close>

record assignment =
  pk :: nat
  start_time :: "int option"
  end_time :: "int option"
  time_limit :: "int option"
  is_rated :: bool
  user_count :: int
  format_name :: string
  format_config :: json
  problem_label_script :: string

text \<open>
  The persisted columns of an \<open>AssignmentParticipation\<close> form the row; the model instance
  extends the row by its primary key and the related \<open>Assignment\<close> instance that
  \<open>self.assignment\<close> yields.
\<close>

record participation_row =
  assignment_id :: nat
  user_id :: nat
  real_start :: int
  score :: real
  cumtime :: nat
  is_disqualified :: bool
  tiebreaker :: real
  virtual :: int
  format_data :: json

record participation = participation_row +
  participation_pk :: nat
  assignment :: assignment

definition LIVE :: int where
  "LIVE = 0"

definition SPECTATE :: int where
  "SPECTATE = - 1"

section \<open>Time window of a participation\<close>

definition live :: "participation \<Rightarrow> bool" where
  "live p = (virtual p = LIVE)"

definition spectate :: "participation \<Rightarrow> bool" where
  "spectate p = (virtual p = SPECTATE)"

text \<open>Python truthiness of an optional \<open>timedelta\<close>: \<open>None\<close> and \<open>timedelta(0)\<close> are false.\<close>

definition timedelta_truthy :: "int option \<Rightarrow> bool" where
  "timedelta_truthy l = (case l of None \<Rightarrow> False | Some d \<Rightarrow> d \<noteq> 0)"

text \<open>The property \<open>AssignmentParticipation.start\<close>.\<close>

definition participation_start :: "participation \<Rightarrow> int option" where
  "participation_start p =
     (let a = assignment p in
      if time_limit a = None \<and> (live p \<or> spectate p) then start_time a
      else Some (real_start p))"

text \<open>
  The property \<open>AssignmentParticipation.end_time\<close>. The branches are in the order of the
  source: spectator, then \<open>if self.virtual\<close> (any non-zero id) with the truthiness test
  \<open>if assignment.time_limit\<close>, then the live case with the test \<open>time_limit is None\<close>.
  Subtracting or comparing with an unset timestamp raises \<open>TypeError\<close>.
\<close>

definition participation_end_time :: "participation \<Rightarrow> error + int option" where
  "participation_end_time p =
     (let a = assignment p in
      if spectate p then Inr (end_time a)
      else if virtual p \<noteq> 0 then
        (if timedelta_truthy (time_limit a) then
           (case time_limit a of
              Some l \<Rightarrow> Inr (Some (real_start p + l))
            | None \<Rightarrow> Inl TypeError)
         else
           (case (end_time a, start_time a) of
              (Some e, Some s) \<Rightarrow> Inr (Some (real_start p + (e - s)))
            | _ \<Rightarrow> Inl TypeError))
      else
        (case time_limit a of
           None \<Rightarrow> Inr (end_time a)
         | Some l \<Rightarrow>
             (case end_time a of
                Some e \<Rightarrow> Inr (Some (min (real_start p + l) e))
              | None \<Rightarrow> Inl TypeError)))"

text \<open>
  The properties \<open>ended\<close> and \<open>time_remaining\<close>; \<open>now\<close> is the value of the cached
  property \<open>_now\<close>, sampled once. A property that falls off its end returns \<open>None\<close>.
\<close>

definition ended :: "participation \<Rightarrow> int \<Rightarrow> error + bool" where
  "ended p now =
     (case participation_end_time p of
        Inl e \<Rightarrow> Inl e
      | Inr None \<Rightarrow> Inr False
      | Inr (Some t) \<Rightarrow> Inr (t < now))"

definition time_remaining :: "participation \<Rightarrow> int \<Rightarrow> error + int option" where
  "time_remaining p now =
     (case participation_end_time p of
        Inl e \<Rightarrow> Inl e
      | Inr None \<Rightarrow> Inr None
      | Inr (Some t) \<Rightarrow> (if t \<ge> now then Inr (Some (t - now)) else Inr None))"

section \<open>Persisted state and collaborators\<close>

text \<open>
  The tables this module reads and writes. \<open>banned_users\<close> is the many-to-many relation
  of \<open>Assignment.banned_users\<close> as pairs (assignment, profile); \<open>current_assignment\<close>
  is the column \<open>Profile.current_assignment\<close>, from a profile to a participation.
\<close>

record rating_row =
  rating_user :: nat
  rating_assignment :: nat
  rating_participation :: nat
  rank :: int
  rating :: int
  volatility :: int
  last_rated :: int

record submission_row =
  submission_participation :: nat
  submission_problem :: nat
  points :: real
  is_pretest :: bool

record db =
  assignment_table :: "assignment list"
  participation_table :: "nat \<rightharpoonup> participation_row"
  submission_table :: "submission_row list"
  rating_table :: "rating_row list"
  banned_users :: "(nat \<times> nat) set"
  current_assignment :: "nat \<rightharpoonup> nat"

text \<open>
  An operation on the database returns its value or the exception it raised, together
  with the state the database is left in.
\<close>

type_synonym 'a outcome = "(error + 'a) \<times> db"

text \<open>
  The collaborators that are imported, not defined, by the module are parameters: the
  registry \<open>assignment_format.formats\<close> of scoring formats with the three methods the
  module calls, the Lua runtime that evaluates a label script, and the rating engine
  \<open>judge.ratings.rate_assignment\<close>. A label call raises, returns a string, or returns
  something else.
\<close>

datatype label_result = LabelRaises string | LabelString string | LabelOther

record format =
  validate :: "json \<Rightarrow> string option"
  format_get_label_for_problem :: "assignment \<Rightarrow> nat \<Rightarrow> label_result"
  update_participation :: "assignment \<Rightarrow> participation \<Rightarrow> db \<Rightarrow> participation outcome"

record env =
  formats :: "string \<rightharpoonup> format"
  lua_eval :: "string \<Rightarrow> nat \<Rightarrow> label_result"
  rate_assignment :: "assignment \<Rightarrow> db \<Rightarrow> unit outcome"

section \<open>Validation: \<open>Assignment.clean\<close>\<close>

definition get_label_for_problem :: "env \<Rightarrow> assignment \<Rightarrow> nat \<Rightarrow> label_result" where
  "get_label_for_problem env a i =
     (if problem_label_script a = [] then
        (case formats env (format_name a) of
           None \<Rightarrow> LabelRaises ''KeyError''
         | Some f \<Rightarrow> format_get_label_for_problem f a i)
      else lua_eval env (problem_label_script a) i)"

text \<open>Lines 174 to 184 of \<open>clean\<close>: the format check and the label smoke test.\<close>

definition clean_format_and_label :: "env \<Rightarrow> assignment \<Rightarrow> error + unit" where
  "clean_format_and_label env a =
     (case formats env (format_name a) of
        None \<Rightarrow> Inl KeyError
      | Some f \<Rightarrow>
          (case validate f (format_config a) of
             Some msg \<Rightarrow> Inl (ConfigError msg)
           | None \<Rightarrow>
               (case get_label_for_problem env a 0 of
                  LabelRaises e \<Rightarrow> Inl (LabelScriptError e)
                | LabelString s \<Rightarrow> Inr ()
                | LabelOther \<Rightarrow> Inl LabelNotStringError)))"

text \<open>
  \<open>if self.start_time and self.end_time and self.start_time >= self.end_time\<close>: a
  datetime is always truthy, so each of the first two conjuncts tests for \<open>None\<close>.
\<close>

definition clean :: "env \<Rightarrow> assignment \<Rightarrow> error + unit" where
  "clean env a =
     (if (case start_time a of
            None \<Rightarrow> False
          | Some s \<Rightarrow> (case end_time a of None \<Rightarrow> False | Some e \<Rightarrow> s \<ge> e))
      then Inl InvalidWindowError
      else clean_format_and_label env a)"

section \<open>Rating scheduler: \<open>Assignment.rate\<close>\<close>

text \<open>
  \<open>with transaction.atomic()\<close>: when the body raises, the writes of the body are rolled
  back and the exception propagates.
\<close>

definition atomic :: "(db \<Rightarrow> 'a outcome) \<Rightarrow> db \<Rightarrow> 'a outcome" where
  "atomic body d =
     (case body d of
        (Inl e, d') \<Rightarrow> (Inl e, d)
      | (Inr v, d') \<Rightarrow> (Inr v, d'))"

text \<open>
  The lookup \<open>end_time__range=(lo, hi)\<close> is SQL's \<open>BETWEEN lo AND hi\<close>; a comparison with
  \<open>NULL\<close> selects no row.
\<close>

definition sql_between :: "int option \<Rightarrow> int option \<Rightarrow> int \<Rightarrow> bool" where
  "sql_between x lo hi =
     (case x of
        None \<Rightarrow> False
      | Some v \<Rightarrow> (case lo of None \<Rightarrow> False | Some l \<Rightarrow> l \<le> v \<and> v \<le> hi))"

text \<open>
  Line 390: \<open>Rating.objects.filter(assignment__end_time__range=(self.end_time,
  self._now)).delete()\<close>, a join of each rating with its assignment.
\<close>

definition ratings_delete_range :: "assignment \<Rightarrow> int \<Rightarrow> db \<Rightarrow> db" where
  "ratings_delete_range self now d =
     d\<lparr>rating_table :=
         filter (\<lambda>r. \<not> (\<exists>a \<in> set (assignment_table d).
                           pk a = rating_assignment r \<and>
                           sql_between (end_time a) (end_time self) now))
           (rating_table d)\<rparr>"

text \<open>
  Lines 391 to 393: the queryset the loop iterates. \<open>order_by('end_time')\<close> is a sort on
  that one key; rows with equal keys come in the order of the table here (the database
  leaves their order open).
\<close>

definition rated_in_range :: "assignment \<Rightarrow> int \<Rightarrow> db \<Rightarrow> assignment list" where
  "rated_in_range self now d =
     sort_key end_time
       (filter (\<lambda>a. is_rated a \<and> sql_between (end_time a) (end_time self) now)
          (assignment_table d))"

fun for_each :: "('a \<Rightarrow> db \<Rightarrow> unit outcome) \<Rightarrow> 'a list \<Rightarrow> db \<Rightarrow> unit outcome" where
  "for_each f [] d = (Inr (), d)"
| "for_each f (x # xs) d =
     (case f x d of
        (Inl e, d') \<Rightarrow> (Inl e, d')
      | (Inr u, d') \<Rightarrow> for_each f xs d')"

definition rate :: "env \<Rightarrow> assignment \<Rightarrow> int \<Rightarrow> db \<Rightarrow> unit outcome" where
  "rate env self now =
     atomic (\<lambda>d.
       let d1 = ratings_delete_range self now d
       in for_each (rate_assignment env) (rated_in_range self now d1) d1)"



section \<open>Saving an assignment: \<open>Assignment.update_user_count\<close>\<close>

text \<open>
  \<open>Model.save()\<close>, which \<open>Assignment\<close> does not override: the row with the instance's key
  is updated, or the instance is inserted when there is no such row. It does not call
  \<open>clean\<close>. \<open>start_time\<close> and \<open>end_time\<close> are columns that are not nullable.
\<close>

definition assignment_save :: "assignment \<Rightarrow> db \<Rightarrow> unit outcome" where
  "assignment_save a d =
     (if start_time a = None \<or> end_time a = None then (Inl IntegrityError, d)
      else
        (Inr (),
         d\<lparr>assignment_table :=
             (if \<exists>r \<in> set (assignment_table d). pk r = pk a
              then map (\<lambda>r. if pk r = pk a then a else r) (assignment_table d)
              else assignment_table d @ [a])\<rparr>))"

text \<open>
  Lines 282 to 284: \<open>self.user_count = self.users.filter(virtual=0).count()\<close>, the number
  of live participations of the assignment, then \<open>self.save()\<close>.
\<close>

definition update_user_count :: "assignment \<Rightarrow> db \<Rightarrow> assignment outcome" where
  "update_user_count self d =
     (let a = self\<lparr>user_count :=
                   int (card {k \<in> dom (participation_table d).
                          case participation_table d k of
                            None \<Rightarrow> False
                          | Some r \<Rightarrow> assignment_id r = pk self \<and> virtual r = 0})\<rparr>
      in case assignment_save a d of
           (Inl e, d') \<Rightarrow> (Inl e, d')
         | (Inr u, d') \<Rightarrow> (Inr a, d'))"

section \<open>Participation aggregator\<close>

text \<open>\<open>Model.save()\<close> writes every column of the instance's row.\<close>

definition row_of :: "participation \<Rightarrow> participation_row" where
  "row_of p =
     \<lparr>assignment_id = assignment_id p, user_id = user_id p, real_start = real_start p,
      score = score p, cumtime = cumtime p, is_disqualified = is_disqualified p,
      tiebreaker = tiebreaker p, virtual = virtual p, format_data = format_data p\<rparr>"

definition save :: "participation \<Rightarrow> db \<Rightarrow> db" where
  "save p d = d\<lparr>participation_table := (participation_table d)(participation_pk p \<mapsto> row_of p)\<rparr>"

text \<open>
  \<open>self.save(update_fields=['score'])\<close> updates the one column of the row with the
  instance's key, and raises when there is no such row.
\<close>

definition save_update_fields_score :: "participation \<Rightarrow> db \<Rightarrow> unit outcome" where
  "save_update_fields_score p d =
     (case participation_table d (participation_pk p) of
        None \<Rightarrow> (Inl DatabaseError, d)
      | Some r \<Rightarrow>
          (Inr (), d\<lparr>participation_table :=
                      (participation_table d)(participation_pk p \<mapsto> r\<lparr>score := score p\<rparr>)\<rparr>))"

definition recompute_results :: "env \<Rightarrow> participation \<Rightarrow> db \<Rightarrow> participation outcome" where
  "recompute_results env p =
     atomic (\<lambda>d.
       case formats env (format_name (assignment p)) of
         None \<Rightarrow> (Inl KeyError, d)
       | Some f \<Rightarrow>
           (case update_participation f (assignment p) p d of
              (Inl e, d1) \<Rightarrow> (Inl e, d1)
            | (Inr p1, d1) \<Rightarrow>
                if is_disqualified p1 then
                  (let p2 = p1\<lparr>score := - 9999\<rparr>
                   in case save_update_fields_score p2 d1 of
                        (Inl e, d2) \<Rightarrow> (Inl e, d2)
                      | (Inr u, d2) \<Rightarrow> (Inr p2, d2))
                else (Inr p1, d1)))"

text \<open>
  Modelled from the spec: \<open>update_participation\<close> of a scoring format
  (\<open>judge.assignment_format\<close>, not part of this module). It reads the submission rows of
  the participation, recomputes score and cumulative time by the format's rules, writes
  \<open>score\<close>, \<open>cumtime\<close> and \<open>format_data\<close> of the participation, and the result is
  persisted. The rules are a parameter.
\<close>

definition spec_update_participation ::
  "(assignment \<Rightarrow> submission_row list \<Rightarrow> real \<times> nat \<times> json) \<Rightarrow>
   assignment \<Rightarrow> participation \<Rightarrow> db \<Rightarrow> participation outcome" where
  "spec_update_participation rules a p d =
     (case rules a (filter (\<lambda>s. submission_participation s = participation_pk p)
                      (submission_table d)) of
        (sc, ct, fd) \<Rightarrow>
          (let p' = p\<lparr>score := sc, cumtime := ct, format_data := fd\<rparr>
           in (Inr p', save p' d)))"

text \<open>
  Modelled from the spec: \<open>Profile.remove_assignment\<close> (\<open>judge.models.profile\<close>, not part
  of this module) clears the user's current-assignment pointer.
\<close>

definition remove_assignment :: "nat \<Rightarrow> db \<Rightarrow> db" where
  "remove_assignment u d = d\<lparr>current_assignment := (current_assignment d)(u := None)\<rparr>"

text \<open>\<open>self.assignment.ratings.exists()\<close>.\<close>

definition ratings_exist :: "assignment \<Rightarrow> db \<Rightarrow> bool" where
  "ratings_exist a d = (\<exists>r \<in> set (rating_table d). rating_assignment r = pk a)"

text \<open>
  \<open>set_disqualified\<close> has no \<open>transaction.atomic()\<close> of its own: its four steps run one
  after the other, each leaving its writes in the database. \<open>self.user.current_assignment
  == self\<close> compares the keys.
\<close>

definition set_disqualified ::
  "env \<Rightarrow> participation \<Rightarrow> bool \<Rightarrow> int \<Rightarrow> db \<Rightarrow> participation outcome" where
  "set_disqualified env p disqualified now d =
     (case recompute_results env (p\<lparr>is_disqualified := disqualified\<rparr>) d of
        (Inl e, d1) \<Rightarrow> (Inl e, d1)
      | (Inr p1, d1) \<Rightarrow>
          (case (if is_rated (assignment p1) \<and> ratings_exist (assignment p1) d1
                 then rate env (assignment p1) now d1
                 else (Inr (), d1)) of
             (Inl e, d2) \<Rightarrow> (Inl e, d2)
           | (Inr u, d2) \<Rightarrow>
               if is_disqualified p1 then
                 (let d3 = (if current_assignment d2 (user_id p1) = Some (participation_pk p1)
                            then remove_assignment (user_id p1) d2 else d2)
                  in (Inr p1,
                      d3\<lparr>banned_users :=
                           insert (pk (assignment p1), user_id p1) (banned_users d3)\<rparr>))
               else
                 (Inr p1,
                  d2\<lparr>banned_users :=
                       banned_users d2 - {(pk (assignment p1), user_id p1)}\<rparr>)))"

section \<open>Example data\<close>

text \<open>
  One rated assignment with the window from 0 to 50, a live participation of user 3 in
  it, a format that adds up the points of the submissions, a rating engine that appends
  one rating row for the assignment it is called on, and an engine that fails after
  writing that row.
\<close>

definition assignment0 :: assignment where
  "assignment0 =
     \<lparr>pk = 1, start_time = Some 0, end_time = Some 50, time_limit = None, is_rated = True,
      user_count = 0, format_name = ''default'', format_config = JNull,
      problem_label_script = []\<rparr>"

definition participation0 :: participation where
  "participation0 =
     \<lparr>assignment_id = 1, user_id = 3, real_start = 100, score = 50, cumtime = 0,
      is_disqualified = False, tiebreaker = 0, virtual = 0, format_data = JNull,
      participation_pk = 7, assignment = assignment0\<rparr>"

definition sum_rules :: "assignment \<Rightarrow> submission_row list \<Rightarrow> real \<times> nat \<times> json" where
  "sum_rules a subs = (sum_list (map points subs), 0, JNull)"

definition default_format :: format where
  "default_format =
     \<lparr>validate = (\<lambda>c. None),
      format_get_label_for_problem = (\<lambda>a i. LabelString ''1''),
      update_participation = spec_update_participation sum_rules\<rparr>"

definition recorded_rating :: "assignment \<Rightarrow> rating_row" where
  "recorded_rating a =
     \<lparr>rating_user = 0, rating_assignment = pk a, rating_participation = 0, rank = 1,
      rating = 1200, volatility = 0, last_rated = 0\<rparr>"

definition env0 :: env where
  "env0 =
     \<lparr>formats = [''default'' \<mapsto> default_format],
      lua_eval = (\<lambda>s i. LabelOther),
      rate_assignment =
        (\<lambda>a d. (Inr (), d\<lparr>rating_table := rating_table d @ [recorded_rating a]\<rparr>))\<rparr>"

definition failing_env :: env where
  "failing_env =
     env0\<lparr>rate_assignment :=
            (\<lambda>a d. (Inl (EngineError ''rating failed''),
                     d\<lparr>rating_table := rating_table d @ [recorded_rating a]\<rparr>))\<rparr>"


text \<open>
  Six assignments ending at 60, 50, 50, 40, 55 and 70 (the one ending at 55 is not
  rated), with one rating row each for the assignments 4, 1, 2, 5 and 6.
\<close>

definition db0 :: db where
  "db0 =
     \<lparr>assignment_table =
        [assignment0\<lparr>pk := 2, end_time := Some 60\<rparr>,
         assignment0,
         assignment0\<lparr>pk := 3\<rparr>,
         assignment0\<lparr>pk := 4, end_time := Some 40\<rparr>,
         assignment0\<lparr>pk := 5, end_time := Some 55, is_rated := False\<rparr>,
         assignment0\<lparr>pk := 6, end_time := Some 70\<rparr>],
      participation_table = [7 \<mapsto> row_of participation0],
      submission_table =
        [\<lparr>submission_participation = 7, submission_problem = 1, points = 30,
          is_pretest = False\<rparr>,
         \<lparr>submission_participation = 7, submission_problem = 2, points = 20,
          is_pretest = False\<rparr>,
         \<lparr>submission_participation = 8, submission_problem = 1, points = 5,
          is_pretest = False\<rparr>],
      rating_table =
        [recorded_rating (assignment0\<lparr>pk := 4\<rparr>), recorded_rating assignment0,
         recorded_rating (assignment0\<lparr>pk := 2\<rparr>), recorded_rating (assignment0\<lparr>pk := 5\<rparr>),
         recorded_rating (assignment0\<lparr>pk := 6\<rparr>)],
      banned_users = {},
      current_assignment = [3 \<mapsto> 7]\<rparr>"

section \<open>Time window: effective start and end\<close>

text \<open>
  The effective end on an assignment with window \<open>[S, E)\<close>, by mode and time limit. In
  the virtual case the limit has to be non-zero for the end to be \<open>real_start + L\<close>.
\<close>

lemma participation_end_time_table:
  assumes "start_time (assignment p) = Some S" and "end_time (assignment p) = Some E"
  shows "virtual p = - 1 \<Longrightarrow> participation_end_time p = Inr (Some E)"
    and "virtual p \<noteq> 0 \<Longrightarrow> virtual p \<noteq> - 1 \<Longrightarrow> time_limit (assignment p) = Some L \<Longrightarrow>
           L \<noteq> 0 \<Longrightarrow> participation_end_time p = Inr (Some (real_start p + L))"
    and "virtual p \<noteq> 0 \<Longrightarrow> virtual p \<noteq> - 1 \<Longrightarrow> time_limit (assignment p) = None \<Longrightarrow>
           participation_end_time p = Inr (Some (real_start p + (E - S)))"
    and "virtual p = 0 \<Longrightarrow> time_limit (assignment p) = None \<Longrightarrow>
           participation_end_time p = Inr (Some E)"
    and "virtual p = 0 \<Longrightarrow> time_limit (assignment p) = Some L \<Longrightarrow>
           participation_end_time p = Inr (Some (min (real_start p + L) E))"
  using assms
  by (simp_all add: participation_end_time_def spectate_def SPECTATE_def timedelta_truthy_def)

text \<open>
  C6: the effective end of a virtual participation with a time limit \<open>L\<close> set is
  \<open>real_start + L\<close>. With the limit set to the zero duration, a virtual participation
  that starts at 100 on the window from 0 to 50 ends at \<open>100 + (50 - 0)\<close>, the replayed
  window length, and not at \<open>100 + 0\<close>: the virtual branch tests the truth value of the
  limit, the live branch tests \<open>is None\<close>.
\<close>

theorem end_time_virtual_zero_time_limit:
  "participation_end_time
     (participation0\<lparr>virtual := 1, assignment := assignment0\<lparr>time_limit := Some 0\<rparr>\<rparr>)
   = Inr (Some (100 + (50 - 0))) \<and>
   participation_end_time
     (participation0\<lparr>virtual := 1, assignment := assignment0\<lparr>time_limit := Some 0\<rparr>\<rparr>)
   \<noteq> Inr (Some (100 + 0)) \<and>
   participation_end_time
     (participation0\<lparr>virtual := 0, assignment := assignment0\<lparr>time_limit := Some 0\<rparr>\<rparr>)
   = Inr (Some (min (100 + 0) 50))"
  by (simp add: participation_end_time_def spectate_def SPECTATE_def timedelta_truthy_def
      participation0_def assignment0_def)

text \<open>
  C7: the effective start is the assignment's \<open>start_time\<close> when the participation is
  live or spectator and the assignment has no time limit, and the participation's
  \<open>real_start\<close> in every other case; when the two instants differ, it equals
  \<open>start_time\<close> exactly in the first case.
\<close>

theorem participation_start_cases:
  "((virtual p = 0 \<or> virtual p = - 1) \<and> time_limit (assignment p) = None \<longrightarrow>
      participation_start p = start_time (assignment p)) \<and>
   (\<not> ((virtual p = 0 \<or> virtual p = - 1) \<and> time_limit (assignment p) = None) \<longrightarrow>
      participation_start p = Some (real_start p)) \<and>
   (start_time (assignment p) \<noteq> Some (real_start p) \<longrightarrow>
      (participation_start p = start_time (assignment p)) =
      ((virtual p = 0 \<or> virtual p = - 1) \<and> time_limit (assignment p) = None))"
  by (auto simp add: participation_start_def live_def spectate_def LIVE_def SPECTATE_def Let_def)

text \<open>
  A live participation without limit starts with the assignment, at 0; the second
  virtual participation starts at its own \<open>real_start\<close>, 100.
\<close>

theorem participation_start_cases_witness:
  "((virtual participation0 = 0 \<or> virtual participation0 = - 1) \<and>
    time_limit (assignment participation0) = None) \<and>
   participation_start participation0 = Some 0 \<and>
   \<not> ((virtual (participation0\<lparr>virtual := 2\<rparr>) = 0 \<or>
       virtual (participation0\<lparr>virtual := 2\<rparr>) = - 1) \<and>
      time_limit (assignment (participation0\<lparr>virtual := 2\<rparr>)) = None) \<and>
   participation_start (participation0\<lparr>virtual := 2\<rparr>) = Some 100 \<and>
   start_time (assignment participation0) \<noteq> Some (real_start participation0)"
  using participation_start_cases [of participation0]
    participation_start_cases [of "participation0\<lparr>virtual := 2\<rparr>"]
  by (simp add: participation0_def assignment0_def)

text \<open>
  C8: with the effective end \<open>eo\<close> and one sampled \<open>now\<close>, \<open>ended\<close> is true exactly when
  the end is defined and strictly earlier than \<open>now\<close>; \<open>time_remaining\<close> is the end minus
  \<open>now\<close> when the end is not earlier than \<open>now\<close> and is absent otherwise. An ended
  participation has no remaining time, and a remaining time of zero means that the end
  is \<open>now\<close>.
\<close>

theorem ended_time_remaining:
  assumes "participation_end_time p = Inr eo"
  shows "ended p now = Inr (\<exists>t. eo = Some t \<and> t < now) \<and>
         time_remaining p now =
           Inr (case eo of None \<Rightarrow> None
                | Some t \<Rightarrow> if now \<le> t then Some (t - now) else None) \<and>
         (ended p now = Inr True \<longrightarrow> time_remaining p now = Inr None) \<and>
         (time_remaining p now = Inr (Some 0)) = (eo = Some now)"
  using assms by (cases eo) (auto simp add: ended_def time_remaining_def)

text \<open>The live participation ends at 50: seen from 60, from 50 and from 20.\<close>

theorem ended_time_remaining_witness:
  "participation_end_time participation0 = Inr (Some 50) \<and>
   ended participation0 60 = Inr True \<and> time_remaining participation0 60 = Inr None \<and>
   ended participation0 50 = Inr False \<and> time_remaining participation0 50 = Inr (Some 0) \<and>
   ended participation0 20 = Inr False \<and> time_remaining participation0 20 = Inr (Some 30)"
proof -
  have e: "participation_end_time participation0 = Inr (Some 50)"
    by (simp add: participation_end_time_def spectate_def SPECTATE_def
        participation0_def assignment0_def)
  show ?thesis
    using e ended_time_remaining [OF e, of 60] ended_time_remaining [OF e, of 50]
      ended_time_remaining [OF e, of 20]
    by simp
qed

section \<open>Validation of the window\<close>

lemma clean_format_and_label_not_window:
  "clean_format_and_label env a \<noteq> Inl InvalidWindowError"
  by (simp add: clean_format_and_label_def split: option.splits label_result.splits)

text \<open>
  Saving an instance whose timestamps are set succeeds and the instance is in the table
  afterwards; \<open>update_user_count\<close> saves the instance with its window as it is.
\<close>

lemma assignment_save_persists:
  assumes "start_time a = Some s" and "end_time a = Some e"
  shows "fst (assignment_save a d) = Inr () \<and>
         a \<in> set (assignment_table (snd (assignment_save a d)))"
  using assms by (auto simp add: assignment_save_def)

lemma update_user_count_persists:
  assumes "start_time a = Some s" and "end_time a = Some e"
  shows "\<exists>a'. fst (update_user_count a d) = Inr a' \<and>
           a' \<in> set (assignment_table (snd (update_user_count a d))) \<and>
           pk a' = pk a \<and> start_time a' = Some s \<and> end_time a' = Some e"
proof -
  let ?a = "a\<lparr>user_count :=
                   int (card {k \<in> dom (participation_table d).
                          case participation_table d k of
                            None \<Rightarrow> False
                          | Some r \<Rightarrow> assignment_id r = pk a \<and> virtual r = 0})\<rparr>"
  have s: "fst (assignment_save ?a d) = Inr () \<and>
      ?a \<in> set (assignment_table (snd (assignment_save ?a d)))"
    using assignment_save_persists [of ?a s e d] assms by simp
  then have "update_user_count a d = (Inr ?a, snd (assignment_save ?a d))"
    by (cases "assignment_save ?a d") (auto simp add: update_user_count_def Let_def)
  then show ?thesis using s assms by auto
qed

text \<open>
  C9, as stated: \<open>clean\<close> fails with the invalid-window error whenever \<open>start_time \<ge>
  end_time\<close> and thereby blocks persistence, so that every persisted assignment has
  \<open>start_time < end_time\<close>. The first half holds and the second fails: saving does not
  call \<open>clean\<close>. The assignment 1 with the start moved to 60, after its end at 50, is
  refused by \<open>clean\<close>, and \<open>update_user_count\<close> on that instance returns and leaves it in
  the table with the window from 60 to 50.
\<close>

theorem clean_does_not_block_save_counterexample:
  "clean env0 (assignment0\<lparr>start_time := Some 60\<rparr>) = Inl InvalidWindowError \<and>
   fst (update_user_count (assignment0\<lparr>start_time := Some 60\<rparr>) db0) =
     Inr (assignment0\<lparr>start_time := Some 60, user_count := 1\<rparr>) \<and>
   map (\<lambda>a. (pk a, start_time a, end_time a))
     (assignment_table (snd (update_user_count (assignment0\<lparr>start_time := Some 60\<rparr>) db0))) =
     [(2, Some 0, Some 60), (1, Some 60, Some 50), (3, Some 0, Some 50), (4, Some 0, Some 40),
      (5, Some 0, Some 55), (6, Some 0, Some 70)]"
proof -
  have n: "{k \<in> dom (participation_table db0).
             case participation_table db0 k of
               None \<Rightarrow> False
             | Some r \<Rightarrow> assignment_id r = pk (assignment0\<lparr>start_time := Some 60\<rparr>) \<and>
                 virtual r = 0} = {7}"
    by (auto simp add: db0_def row_of_def participation0_def assignment0_def split: if_splits)
  have c: "clean env0 (assignment0\<lparr>start_time := Some 60\<rparr>) = Inl InvalidWindowError"
    by (simp add: clean_def assignment0_def)
  have u: "update_user_count (assignment0\<lparr>start_time := Some 60\<rparr>) db0 =
      (Inr (assignment0\<lparr>start_time := Some 60, user_count := 1\<rparr>),
       db0\<lparr>assignment_table :=
             map (\<lambda>r. if pk r = 1 then assignment0\<lparr>start_time := Some 60, user_count := 1\<rparr>
                       else r)
               (assignment_table db0)\<rparr>)"
    unfolding update_user_count_def Let_def n
    by (simp add: assignment_save_def assignment0_def db0_def)
  show ?thesis
    unfolding u using c by (simp add: db0_def assignment0_def)
qed

text \<open>
  C9, amended: on an assignment with both timestamps, \<open>clean\<close> fails with the
  invalid-window error exactly when \<open>start_time \<ge> end_time\<close>, so an assignment that
  \<open>clean\<close> accepts has \<open>start_time < end_time\<close>. Saving does not run \<open>clean\<close>:
  \<open>update_user_count\<close> returns and persists the instance with its window as it is,
  whatever \<open>clean\<close> says of it.
\<close>

theorem clean_invalid_window:
  assumes "start_time a = Some s" and "end_time a = Some e"
  shows "(clean env a = Inl InvalidWindowError) = (s \<ge> e) \<and>
         (clean env a = Inr () \<longrightarrow> s < e) \<and>
         (\<exists>a'. fst (update_user_count a d) = Inr a' \<and>
            a' \<in> set (assignment_table (snd (update_user_count a d))) \<and>
            pk a' = pk a \<and> start_time a' = Some s \<and> end_time a' = Some e)"
proof -
  have "(clean env a = Inl InvalidWindowError) = (s \<ge> e) \<and>
         (clean env a = Inr () \<longrightarrow> s < e)"
    using assms clean_format_and_label_not_window [of env a] by (auto simp add: clean_def)
  then show ?thesis
    using update_user_count_persists [OF assms, of d] by blast
qed

text \<open>
  The empty window from 50 to 50 is refused by \<open>clean\<close> and saved by
  \<open>update_user_count\<close>; the window from 0 to 50 is accepted.
\<close>

theorem clean_invalid_window_witness:
  "start_time (assignment0\<lparr>start_time := Some 50, end_time := Some 50\<rparr>) = Some 50 \<and>
   end_time (assignment0\<lparr>start_time := Some 50, end_time := Some 50\<rparr>) = Some 50 \<and>
   clean env0 (assignment0\<lparr>start_time := Some 50, end_time := Some 50\<rparr>) =
     Inl InvalidWindowError \<and>
   (\<exists>a'. fst (update_user_count (assignment0\<lparr>start_time := Some 50, end_time := Some 50\<rparr>) db0) =
           Inr a' \<and>
      a' \<in> set (assignment_table
                 (snd (update_user_count (assignment0\<lparr>start_time := Some 50, end_time := Some 50\<rparr>)
                         db0))) \<and>
      start_time a' = Some 50 \<and> end_time a' = Some 50) \<and>
   start_time assignment0 = Some 0 \<and> end_time assignment0 = Some 50 \<and>
   clean env0 assignment0 = Inr () \<and> (0::int) < 50"
proof -
  have ok: "clean env0 assignment0 = Inr ()"
    by (simp add: clean_def clean_format_and_label_def get_label_for_problem_def env0_def
        default_format_def assignment0_def)
  have s: "start_time (assignment0\<lparr>start_time := Some 50, end_time := Some 50\<rparr>) = Some 50"
    and e: "end_time (assignment0\<lparr>start_time := Some 50, end_time := Some 50\<rparr>) = Some 50"
    by simp_all
  have s0: "start_time assignment0 = Some 0" and e0: "end_time assignment0 = Some 50"
    by (simp_all add: assignment0_def)
  show ?thesis
    using ok s e s0 e0 clean_invalid_window [OF s e, of env0 db0]
      clean_invalid_window [OF s0 e0, of env0 db0]
    by auto
qed

text \<open>
  C10: when \<open>start_time\<close> or \<open>end_time\<close> is missing, \<open>clean\<close> does not raise the
  invalid-window error; its result is that of the format and label checks.
\<close>

theorem clean_missing_timestamp:
  assumes "start_time a = None \<or> end_time a = None"
  shows "clean env a \<noteq> Inl InvalidWindowError \<and> clean env a = clean_format_and_label env a"
proof -
  have "clean env a = clean_format_and_label env a"
    using assms by (auto simp add: clean_def split: option.splits)
  then show ?thesis
    using clean_format_and_label_not_window [of env a] by simp
qed

text \<open>An assignment that starts at 60 and has no end passes validation.\<close>

theorem clean_missing_timestamp_witness:
  "(start_time (assignment0\<lparr>start_time := Some 60, end_time := None\<rparr>) = None \<or>
    end_time (assignment0\<lparr>start_time := Some 60, end_time := None\<rparr>) = None) \<and>
   clean env0 (assignment0\<lparr>start_time := Some 60, end_time := None\<rparr>) = Inr ()"
proof -
  have "clean_format_and_label env0 (assignment0\<lparr>start_time := Some 60, end_time := None\<rparr>) =
      Inr ()"
    by (simp add: clean_format_and_label_def get_label_for_problem_def env0_def
        default_format_def assignment0_def)
  then show ?thesis
    using clean_missing_timestamp [of "assignment0\<lparr>start_time := Some 60, end_time := None\<rparr>" env0]
    by (simp add: assignment0_def)
qed

section \<open>Rating scheduler\<close>

lemma sql_between_Some:
  "sql_between x (Some t) now = (\<exists>e. x = Some e \<and> t \<le> e \<and> e \<le> now)"
  by (cases x) (simp_all add: sql_between_def)

text \<open>
  The transaction of \<open>rate\<close>: the loop over the queryset starts from the state the
  deletion leaves, and a failure restores the state before the call.
\<close>

lemma rate_unfold:
  "rate env self now d =
     (case for_each (rate_assignment env) (rated_in_range self now d)
             (ratings_delete_range self now d) of
        (Inl e, d') \<Rightarrow> (Inl e, d)
      | (Inr v, d') \<Rightarrow> (Inr v, d'))"
  by (simp add: rate_def atomic_def rated_in_range_def ratings_delete_range_def Let_def)

text \<open>
  A loop whose body never raises is a left fold: each call gets the state that the call
  before it left.
\<close>

lemma for_each_all_succeed:
  assumes "\<And>a d'. a \<in> set xs \<Longrightarrow> fst (f a d') = Inr ()"
  shows "for_each f xs d = (Inr (), fold (\<lambda>a d'. snd (f a d')) xs d)"
  using assms
proof (induction xs arbitrary: d)
  case Nil
  then show ?case by simp
next
  case (Cons x xs)
  have "fst (f x d) = Inr ()" using Cons.prems by simp
  then have fx: "f x d = (Inr (), snd (f x d))" by (cases "f x d") simp
  have step: "for_each f xs (snd (f x d)) =
      (Inr (), fold (\<lambda>a d'. snd (f a d')) xs (snd (f x d)))"
    using Cons.IH Cons.prems by simp
  have "for_each f (x # xs) d = for_each f xs (snd (f x d))"
    by (subst for_each.simps, subst fx) simp
  then show ?case using step by simp
qed

lemma rate_all_succeed:
  assumes "\<forall>a d'. fst (rate_assignment env a d') = Inr ()"
  shows "rate env self now d =
           (Inr (), fold (\<lambda>a d'. snd (rate_assignment env a d'))
                      (rated_in_range self now d) (ratings_delete_range self now d))"
  using assms by (simp add: rate_unfold for_each_all_succeed)












text \<open>
  C1, as stated: \<open>rate\<close> deletes the rating rows of the assignments whose \<open>end_time\<close> lies
  in \<open>[A.end_time, now)\<close>, so that a row of an assignment ending at \<open>now\<close> is deleted by no
  call and a row of an assignment ending at \<open>A.end_time\<close> by every call. Both fail. The
  assignment 2 ends at 60: called on the assignment 1 (ending at 50) with \<open>now = 60\<close>,
  the deletion removes its row together with those of 1 and 5. Called with \<open>now = 45\<close>,
  before the assignment 1 has ended, the deletion removes nothing, the row of 1 included.
\<close>

theorem rate_deletes_half_open_counterexample:
  "map (\<lambda>a. (pk a, end_time a)) (assignment_table db0) =
     [(2, Some 60), (1, Some 50), (3, Some 50), (4, Some 40), (5, Some 55), (6, Some 70)] \<and>
   map rating_assignment (rating_table db0) = [4, 1, 2, 5, 6] \<and>
   map rating_assignment (rating_table (ratings_delete_range assignment0 60 db0)) = [4, 6] \<and>
   map rating_assignment (rating_table (ratings_delete_range assignment0 45 db0)) =
     [4, 1, 2, 5, 6]"
  by (simp add: ratings_delete_range_def sql_between_def db0_def assignment0_def
      recorded_rating_def)

text \<open>
  C1, amended: \<open>rate\<close> on an assignment ending at \<open>t\<close> first deletes exactly the rating
  rows that belong to an assignment whose \<open>end_time\<close> lies in the closed range from \<open>t\<close>
  to \<open>now\<close>, both ends included; no row of such an assignment is left, the other rows
  and the other tables stay, and the loop of the engine starts from that state.
\<close>

theorem rate_deletes_closed_range:
  assumes "end_time self = Some t"
  shows "rating_table (ratings_delete_range self now d) =
           filter (\<lambda>r. \<not> (\<exists>a \<in> set (assignment_table d). pk a = rating_assignment r \<and>
                             (\<exists>e. end_time a = Some e \<and> t \<le> e \<and> e \<le> now)))
             (rating_table d) \<and>
         (\<forall>a \<in> set (assignment_table d). \<forall>e. end_time a = Some e \<and> t \<le> e \<and> e \<le> now \<longrightarrow>
            (\<forall>r \<in> set (rating_table (ratings_delete_range self now d)).
               rating_assignment r \<noteq> pk a)) \<and>
         assignment_table (ratings_delete_range self now d) = assignment_table d \<and>
         participation_table (ratings_delete_range self now d) = participation_table d \<and>
         rate env self now d =
           (case for_each (rate_assignment env) (rated_in_range self now d)
                   (ratings_delete_range self now d) of
              (Inl e, d') \<Rightarrow> (Inl e, d)
            | (Inr v, d') \<Rightarrow> (Inr v, d'))"
proof -
  have del: "rating_table (ratings_delete_range self now d) =
           filter (\<lambda>r. \<not> (\<exists>a \<in> set (assignment_table d). pk a = rating_assignment r \<and>
                             (\<exists>e. end_time a = Some e \<and> t \<le> e \<and> e \<le> now)))
             (rating_table d)"
    using assms by (simp add: ratings_delete_range_def sql_between_Some)
  have gone: "\<forall>a \<in> set (assignment_table d). \<forall>e. end_time a = Some e \<and> t \<le> e \<and> e \<le> now \<longrightarrow>
            (\<forall>r \<in> set (rating_table (ratings_delete_range self now d)).
               rating_assignment r \<noteq> pk a)"
    unfolding del by auto
  have rest: "assignment_table (ratings_delete_range self now d) = assignment_table d \<and>
         participation_table (ratings_delete_range self now d) = participation_table d"
    by (simp add: ratings_delete_range_def)
  show ?thesis
    using del gone rest rate_unfold [of env self now d] by blast
qed

text \<open>
  Called on the assignment 1 with \<open>now = 60\<close>, the rows of the assignments 1, 2 and 5
  (ending at 50, 60 and 55) go, those of 4 and 6 (ending at 40 and 70) stay.
\<close>

theorem rate_deletes_closed_range_witness:
  "end_time assignment0 = Some 50 \<and>
   assignment0\<lparr>pk := 2, end_time := Some 60\<rparr> \<in> set (assignment_table db0) \<and>
   map rating_assignment (rating_table db0) = [4, 1, 2, 5, 6] \<and>
   map rating_assignment (rating_table (ratings_delete_range assignment0 60 db0)) = [4, 6]"
  using rate_deletes_closed_range [of assignment0 50 60 db0 env0]
  by (simp add: db0_def assignment0_def recorded_rating_def)




section \<open>Participation aggregator: recomputation and disqualification\<close>

lemma spec_update_participation_result:
  "spec_update_participation rules a p d =
     (Inr (p\<lparr>score := fst (rules a (filter (\<lambda>s. submission_participation s = participation_pk p)
                      (submission_table d))),
            cumtime := fst (snd (rules a (filter (\<lambda>s. submission_participation s = participation_pk p)
                      (submission_table d)))),
            format_data := snd (snd (rules a (filter (\<lambda>s. submission_participation s = participation_pk p)
                      (submission_table d))))\<rparr>),
      save (p\<lparr>score := fst (rules a (filter (\<lambda>s. submission_participation s = participation_pk p)
                      (submission_table d))),
            cumtime := fst (snd (rules a (filter (\<lambda>s. submission_participation s = participation_pk p)
                      (submission_table d)))),
            format_data := snd (snd (rules a (filter (\<lambda>s. submission_participation s = participation_pk p)
                      (submission_table d))))\<rparr>) d)"
  by (simp add: spec_update_participation_def Let_def split: prod.splits)

text \<open>
  A format that behaves as the spec describes leaves the disqualification flag, the key
  and the assignment of the participation as they are.
\<close>

lemma spec_update_participation_keeps:
  assumes "spec_update_participation rules a p d = (Inr p1, d1)"
  shows "is_disqualified p1 = is_disqualified p \<and> participation_pk p1 = participation_pk p \<and>
         assignment p1 = assignment p \<and> submission_table d1 = submission_table d"
  using assms by (auto simp add: spec_update_participation_result save_def)

text \<open>With a format that behaves as the spec describes, \<open>recompute_results\<close> returns.\<close>

lemma recompute_results_spec_returns:
  assumes "formats env (format_name (assignment p)) = Some f"
    and "update_participation f = spec_update_participation rules"
  shows "\<exists>p1 d1. recompute_results env p d = (Inr p1, d1)"
  using assms
  by (simp add: recompute_results_def atomic_def save_update_fields_score_def Let_def
      spec_update_participation_result save_def)

text \<open>
  C4: let the format's \<open>update_participation\<close> leave the participation \<open>p1\<close> and the
  database \<open>d1\<close>. When \<open>recompute_results\<close> returns and \<open>p1\<close> is disqualified, the score
  of the participation is \<open>-9999\<close> whatever score the format computed, and the database
  is \<open>d1\<close> with the score column of the participation's row overwritten and nothing
  else; when \<open>p1\<close> is not disqualified, the participation and the database are as the
  format left them.
\<close>

theorem recompute_results_override:
  assumes "formats env (format_name (assignment p)) = Some f"
    and "update_participation f (assignment p) p d = (Inr p1, d1)"
    and "recompute_results env p d = (Inr p', d')"
  shows "(is_disqualified p1 \<longrightarrow>
            score p' = - 9999 \<and> p' = p1\<lparr>score := - 9999\<rparr> \<and>
            (\<exists>r. participation_table d1 (participation_pk p1) = Some r \<and>
                 d' = d1\<lparr>participation_table :=
                          (participation_table d1)
                            (participation_pk p1 \<mapsto> r\<lparr>score := - 9999\<rparr>)\<rparr>)) \<and>
         (\<not> is_disqualified p1 \<longrightarrow> p' = p1 \<and> d' = d1) \<and>
         is_disqualified p' = is_disqualified p1"
  using assms
  by (auto simp add: recompute_results_def atomic_def save_update_fields_score_def Let_def
      split: option.splits if_splits)

text \<open>
  The participation 7 has submissions worth 30 and 20 points. Disqualified, it gets the
  score \<open>-9999\<close> in place of 50, in the instance and in its row; not disqualified, it
  keeps the 50.
\<close>

theorem recompute_results_override_witness:
  "formats env0 (format_name (assignment (participation0\<lparr>is_disqualified := True\<rparr>))) =
     Some default_format \<and>
   update_participation default_format (assignment (participation0\<lparr>is_disqualified := True\<rparr>))
       (participation0\<lparr>is_disqualified := True\<rparr>) db0 =
     (Inr (participation0\<lparr>is_disqualified := True\<rparr>),
      save (participation0\<lparr>is_disqualified := True\<rparr>) db0) \<and>
   is_disqualified (participation0\<lparr>is_disqualified := True\<rparr>) \<and>
   score (participation0\<lparr>is_disqualified := True\<rparr>) = 50 \<and>
   (\<exists>p' d'. recompute_results env0 (participation0\<lparr>is_disqualified := True\<rparr>) db0 =
        (Inr p', d') \<and>
      score p' = - 9999 \<and>
      participation_table d' 7 =
        Some ((row_of (participation0\<lparr>is_disqualified := True\<rparr>))\<lparr>score := - 9999\<rparr>)) \<and>
   formats env0 (format_name (assignment participation0)) = Some default_format \<and>
   update_participation default_format (assignment participation0) participation0 db0 =
     (Inr participation0, save participation0 db0) \<and>
   \<not> is_disqualified participation0 \<and>
   recompute_results env0 participation0 db0 = (Inr participation0, save participation0 db0)"
proof -
  let ?p = "participation0\<lparr>is_disqualified := True\<rparr>"
  have f: "formats env0 (format_name (assignment ?p)) = Some default_format"
    by (simp add: env0_def participation0_def assignment0_def)
  have u: "update_participation default_format (assignment ?p) ?p db0 = (Inr ?p, save ?p db0)"
    by (simp add: default_format_def spec_update_participation_def sum_rules_def Let_def
        db0_def participation0_def)
  obtain p' d' where r: "recompute_results env0 ?p db0 = (Inr p', d')"
    using recompute_results_spec_returns [OF f, of sum_rules db0]
    by (auto simp add: default_format_def)
  have s: "participation_table (save ?p db0) (participation_pk ?p) = Some (row_of ?p)"
    by (simp add: save_def)
  have k: "participation_pk ?p = 7" by (simp add: participation0_def)
  have dq: "is_disqualified ?p" by simp
  have sc: "score ?p = 50" by (simp add: participation0_def)
  have c1: "score p' = - 9999 \<and>
      participation_table d' 7 = Some ((row_of ?p)\<lparr>score := - 9999\<rparr>)"
    using recompute_results_override [OF f u r] s k dq by auto
  have f0: "formats env0 (format_name (assignment participation0)) = Some default_format"
    by (simp add: env0_def participation0_def assignment0_def)
  have u0: "update_participation default_format (assignment participation0) participation0 db0 =
      (Inr participation0, save participation0 db0)"
    by (simp add: default_format_def spec_update_participation_def sum_rules_def Let_def
        db0_def participation0_def)
  obtain p0' d0' where r0: "recompute_results env0 participation0 db0 = (Inr p0', d0')"
    using recompute_results_spec_returns [OF f0, of sum_rules db0]
    by (auto simp add: default_format_def)
  have nd: "\<not> is_disqualified participation0" by (simp add: participation0_def)
  have c2: "recompute_results env0 participation0 db0 =
      (Inr participation0, save participation0 db0)"
    using recompute_results_override [OF f0 u0 r0] nd r0 by simp
  show ?thesis
    using f u dq sc r c1 f0 u0 nd c2 by blast
qed

text \<open>
  C5: with a format whose \<open>update_participation\<close> is as the spec describes it,
  \<open>recompute_results\<close> returns, and a second call right after the first returns the same
  participation, so the same \<open>score\<close>, \<open>cumtime\<close> and \<open>format_data\<close>, and leaves the
  database as the first call left it.
\<close>

theorem recompute_results_idempotent:
  assumes "formats env (format_name (assignment p)) = Some f"
    and "update_participation f = spec_update_participation rules"
  shows "\<exists>p1 d1. recompute_results env p d = (Inr p1, d1) \<and>
           recompute_results env p1 d1 = (Inr p1, d1)"
proof -
  obtain p1 d1 where r: "recompute_results env p d = (Inr p1, d1)"
    using recompute_results_spec_returns [OF assms] by blast
  have "recompute_results env p1 d1 = (Inr p1, d1)"
    using assms r
    by (auto simp add: recompute_results_def atomic_def save_update_fields_score_def Let_def
        spec_update_participation_result save_def row_of_def
        split: option.splits prod.splits sum.splits if_splits)
  with r show ?thesis by blast
qed

text \<open>The disqualified participation 7 with the format that adds up the points.\<close>

theorem recompute_results_idempotent_witness:
  "formats env0 (format_name (assignment (participation0\<lparr>is_disqualified := True\<rparr>))) =
     Some default_format \<and>
   update_participation default_format = spec_update_participation sum_rules \<and>
   (\<exists>p1 d1. recompute_results env0 (participation0\<lparr>is_disqualified := True\<rparr>) db0 =
        (Inr p1, d1) \<and>
      recompute_results env0 p1 d1 = (Inr p1, d1))"
proof -
  have f: "formats env0 (format_name (assignment (participation0\<lparr>is_disqualified := True\<rparr>))) =
     Some default_format"
    by (simp add: env0_def participation0_def assignment0_def)
  have u: "update_participation default_format = spec_update_participation sum_rules"
    by (simp add: default_format_def)
  show ?thesis
    using f u recompute_results_idempotent [OF f u, of db0] by simp
qed

text \<open>
  C3: \<open>set_disqualified\<close> applies its writes together or not at all. The participation 7
  of user 3 is not disqualified and has the score 50; its assignment is rated and has a
  rating row. Disqualifying it while the rating engine fails: the call raises the
  engine's error, and the row of the participation is left disqualified with the score
  \<open>-9999\<close>. The transaction of \<open>rate\<close> has restored the ratings, but the user is not in
  the banned set and the user's current-assignment pointer is still set.
\<close>

theorem set_disqualified_not_atomic:
  "fst (set_disqualified failing_env participation0 True 60 db0) =
     Inl (EngineError ''rating failed'') \<and>
   map_option (\<lambda>r. (is_disqualified r, score r)) (participation_table db0 7) =
     Some (False, 50) \<and>
   map_option (\<lambda>r. (is_disqualified r, score r))
     (participation_table (snd (set_disqualified failing_env participation0 True 60 db0)) 7) =
     Some (True, - 9999) \<and>
   rating_table (snd (set_disqualified failing_env participation0 True 60 db0)) =
     rating_table db0 \<and>
   banned_users (snd (set_disqualified failing_env participation0 True 60 db0)) = {} \<and>
   current_assignment (snd (set_disqualified failing_env participation0 True 60 db0)) 3 =
     Some 7"
  by (simp add: set_disqualified_def recompute_results_def rate_def atomic_def Let_def
      spec_update_participation_def save_def save_update_fields_score_def row_of_def
      ratings_exist_def rated_in_range_def ratings_delete_range_def sql_between_def
      failing_env_def env0_def default_format_def sum_rules_def recorded_rating_def
      db0_def participation0_def assignment0_def)

text \<open>
  With an engine that does not fail, the same call disqualifies the participation, bans
  the user and clears the pointer.
\<close>

lemma set_disqualified_succeeds_example:
  "fst (set_disqualified env0 participation0 True 60 db0) =
     Inr (participation0\<lparr>is_disqualified := True, score := - 9999\<rparr>) \<and>
   banned_users (snd (set_disqualified env0 participation0 True 60 db0)) = {(1, 3)} \<and>
   current_assignment (snd (set_disqualified env0 participation0 True 60 db0)) 3 = None"
  by (simp add: set_disqualified_def recompute_results_def rate_def atomic_def Let_def
      spec_update_participation_def save_def save_update_fields_score_def row_of_def
      ratings_exist_def rated_in_range_def ratings_delete_range_def sql_between_def
      remove_assignment_def
      env0_def default_format_def sum_rules_def recorded_rating_def
      db0_def participation0_def assignment0_def)

end
